theory Spec2Isabelle
  imports Complex_Main
begin

section \<open>BrachioGraph: a shallow embedding of \<^verbatim>\<open>brachiograph.py\<close>\<close>

text \<open>
  The plotter is driven by one Python class, \<^verbatim>\<open>BrachioGraph\<close>, and a helper class
  \<^verbatim>\<open>Pen\<close>. Python numbers are modelled as \<^typ>\<open>real\<close>: every statement below is about
  the arithmetic the code writes down, read over the reals, not about IEEE rounding.
  Exceptions are values: a function that can raise returns \<open>error + 'a\<close>, and a method
  that mutates the object returns the object as the exception leaves it, because a Python
  exception undoes nothing.

  The source has no exception classes of its own. What the specification calls
  \<^verbatim>\<open>UnreachablePositionError\<close>, \<^verbatim>\<open>InvalidPulseWidthError\<close> and
  \<^verbatim>\<open>DegenerateDrawingError\<close> are, in the code, the built-in exceptions raised by
  \<^verbatim>\<open>math.asin\<close>, \<^verbatim>\<open>math.acos\<close>, the division operator and an explicit
  \<^verbatim>\<open>raise ValueError\<close>.
\<close>

subsection \<open>Python primitives\<close>

datatype error = ValueError | ZeroDivisionError | IndexError | AttributeError

text \<open>\<^verbatim>\<open>a / b\<close>: true division, raising on a zero divisor.\<close>

definition py_div :: "real \<Rightarrow> real \<Rightarrow> error + real" where
  "py_div a b = (if b = 0 then Inl ZeroDivisionError else Inr (a / b))"

text \<open>\<^verbatim>\<open>math.sqrt\<close>, \<^verbatim>\<open>math.asin\<close>, \<^verbatim>\<open>math.acos\<close>: a math domain error is a \<^verbatim>\<open>ValueError\<close>.\<close>

definition py_sqrt :: "real \<Rightarrow> error + real" where
  "py_sqrt v = (if v < 0 then Inl ValueError else Inr (sqrt v))"

definition py_asin :: "real \<Rightarrow> error + real" where
  "py_asin v = (if - 1 \<le> v \<and> v \<le> 1 then Inr (arcsin v) else Inl ValueError)"

definition py_acos :: "real \<Rightarrow> error + real" where
  "py_acos v = (if - 1 \<le> v \<and> v \<le> 1 then Inr (arccos v) else Inl ValueError)"

text \<open>\<^verbatim>\<open>math.degrees\<close> and \<^verbatim>\<open>math.radians\<close>.\<close>

definition degrees :: "real \<Rightarrow> real" where
  "degrees r = r * 180 / pi"


text \<open>\<^verbatim>\<open>int(r)\<close> on a float truncates towards zero.\<close>

definition py_int :: "real \<Rightarrow> int" where
  "py_int r = (if 0 \<le> r then \<lfloor>r\<rfloor> else \<lceil>r\<rceil>)"

text \<open>\<^verbatim>\<open>min\<close> and \<^verbatim>\<open>max\<close> of a set raise \<^verbatim>\<open>ValueError\<close> on the empty set.\<close>

definition py_min :: "real set \<Rightarrow> error + real" where
  "py_min S = (if S = {} then Inl ValueError else Inr (Min S))"

definition py_max :: "real set \<Rightarrow> error + real" where
  "py_max S = (if S = {} then Inl ValueError else Inr (Max S))"

subsection \<open>Trigonometric methods\<close>

text \<open>
  \<^verbatim>\<open>xy_to_angles\<close> and \<^verbatim>\<open>angles_to_xy\<close> read only the two arm lengths of the object, which
  are passed as the first two arguments. The order of the \<open>case\<close>s is Python's order of
  evaluation, so the first failing operation decides the exception.
\<close>

definition xy_to_angles :: "real \<Rightarrow> real \<Rightarrow> real \<Rightarrow> real \<Rightarrow> error + (real \<times> real)" where
  "xy_to_angles inner_arm outer_arm x y =
     (case py_sqrt (x\<^sup>2 + y\<^sup>2) of Inl e \<Rightarrow> Inl e | Inr hypotenuse \<Rightarrow>
     (case py_div x hypotenuse of Inl e \<Rightarrow> Inl e | Inr q \<Rightarrow>
     (case py_asin q of Inl e \<Rightarrow> Inl e | Inr hypotenuse_angle \<Rightarrow>
     (case py_div (hypotenuse\<^sup>2 + inner_arm\<^sup>2 - outer_arm\<^sup>2) (2 * hypotenuse * inner_arm) of
        Inl e \<Rightarrow> Inl e | Inr c1 \<Rightarrow>
     (case py_acos c1 of Inl e \<Rightarrow> Inl e | Inr inner_angle \<Rightarrow>
     (case py_div (inner_arm\<^sup>2 + outer_arm\<^sup>2 - hypotenuse\<^sup>2) (2 * inner_arm * outer_arm) of
        Inl e \<Rightarrow> Inl e | Inr c2 \<Rightarrow>
     (case py_acos c2 of Inl e \<Rightarrow> Inl e | Inr outer_angle \<Rightarrow>
        Inr (degrees (hypotenuse_angle - inner_angle), degrees (pi - outer_angle)))))))))"



subsection \<open>The plotter object\<close>

text \<open>
  \<^verbatim>\<open>Pen\<close> sets its attribute \<^verbatim>\<open>virtual_mode\<close> only when the plotter is virtual; otherwise
  the attribute does not exist, and reading it raises \<^verbatim>\<open>AttributeError\<close>. The field is
  therefore optional. The fields of the pen carry the prefix \<open>pen_\<close> because Isabelle
  record fields share one name space with those of the plotter.
\<close>

record pen =
  pen_virtual_mode :: "bool option"
  pen_pin :: nat
  pen_pw_up :: real
  pen_pw_down :: real
  pen_transition_time :: real
  pen_virtual_pw :: "real option"

text \<open>
  The attributes of \<^verbatim>\<open>BrachioGraph\<close>. \<open>angles_to_pw_1\<close> and \<open>angles_to_pw_2\<close> are the two
  callables the constructor stores (a fitted polynomial or the naive linear map).
  \<open>rpi\<close> is the pigpio daemon as the code sees it: the pulse-width last set on each GPIO
  pin. \<open>angle_1\<close> and \<open>angle_2\<close> do not exist before the first \<^verbatim>\<open>set_angles\<close>.
  \<open>virtual_pw_1\<close>, \<open>virtual_pw_2\<close> are read and written in virtual mode only, \<open>rpi\<close> in
  real mode only.

  \<open>commands\<close> is not a Python attribute. It lists, oldest first, the pairs that
  \<^verbatim>\<open>set_pulse_widths\<close> has accepted and passed on to the two arm servos, so that
  ``no pulse-width command is issued'' can be said of a call.
\<close>

record brachiograph =
  INNER_ARM :: real
  OUTER_ARM :: real
  virtual_mode :: bool
  bounds :: "(real \<times> real \<times> real \<times> real) option"
  angles_to_pw_1 :: "real \<Rightarrow> real"
  angles_to_pw_2 :: "real \<Rightarrow> real"
  pen :: pen
  virtual_pw_1 :: real
  virtual_pw_2 :: real
  rpi :: "nat \<Rightarrow> real"
  current_x :: real
  current_y :: real
  angle_1 :: "real option"
  angle_2 :: "real option"
  angles_used_1 :: "real set"
  angles_used_2 :: "real set"
  pulse_widths_used_1 :: "real set"
  pulse_widths_used_2 :: "real set"
  commands :: "(real \<times> real) list"

subsection \<open>Pen methods\<close>

text \<open>\<^verbatim>\<open>sleep\<close> changes no attribute and is left out everywhere.\<close>

definition pen_down :: "brachiograph \<Rightarrow> (error + unit) \<times> brachiograph" where
  "pen_down s =
     (case pen_virtual_mode (pen s) of
        None \<Rightarrow> (Inl AttributeError, s)
      | Some v \<Rightarrow>
          if v then (Inr (), s\<lparr>pen := (pen s)\<lparr>pen_virtual_pw := Some (pen_pw_down (pen s))\<rparr>\<rparr>)
          else (Inr (), s\<lparr>rpi := (rpi s)(pen_pin (pen s) := pen_pw_down (pen s))\<rparr>))"

definition pen_up :: "brachiograph \<Rightarrow> (error + unit) \<times> brachiograph" where
  "pen_up s =
     (case pen_virtual_mode (pen s) of
        None \<Rightarrow> (Inl AttributeError, s)
      | Some v \<Rightarrow>
          if v then (Inr (), s\<lparr>pen := (pen s)\<lparr>pen_virtual_pw := Some (pen_pw_up (pen s))\<rparr>\<rparr>)
          else (Inr (), s\<lparr>rpi := (rpi s)(pen_pin (pen s) := pen_pw_up (pen s))\<rparr>))"

subsection \<open>Hardware-related methods\<close>

text \<open>
  The naive maps read \<^verbatim>\<open>servo_1_degree_ms\<close>, \<^verbatim>\<open>servo_1_zero\<close> (and their servo 2
  counterparts), which the constructor sets once; they are arguments here.
\<close>

definition naive_angles_to_pulse_widths_1 :: "real \<Rightarrow> real \<Rightarrow> real \<Rightarrow> real" where
  "naive_angles_to_pulse_widths_1 servo_1_degree_ms servo_1_zero angle =
     (angle + 90) * servo_1_degree_ms + servo_1_zero"

definition naive_angles_to_pulse_widths_2 :: "real \<Rightarrow> real \<Rightarrow> real \<Rightarrow> real" where
  "naive_angles_to_pulse_widths_2 servo_2_degree_ms servo_2_zero angle =
     (angle - 90) * servo_2_degree_ms + servo_2_zero"

definition angles_to_pulse_widths :: "real \<Rightarrow> real \<Rightarrow> brachiograph \<Rightarrow> real \<times> real" where
  "angles_to_pulse_widths a1 a2 s = (angles_to_pw_1 s a1, angles_to_pw_2 s a2)"

text \<open>
  In virtual mode the accepted pair is stored as \<^verbatim>\<open>self.angles_to_pw_1(pw_1)\<close>,
  \<^verbatim>\<open>self.angles_to_pw_2(pw_2)\<close>, exactly as the source writes it. In real mode the two
  values go to pins 14 and 15 with no check in this code.
\<close>

definition set_pulse_widths :: "real \<Rightarrow> real \<Rightarrow> brachiograph \<Rightarrow> (error + unit) \<times> brachiograph" where
  "set_pulse_widths pw_1 pw_2 s =
     (if virtual_mode s then
        if (500 < pw_1 \<and> pw_1 < 2500) \<and> (500 < pw_2 \<and> pw_2 < 2500) then
          (Inr (), s\<lparr>virtual_pw_1 := angles_to_pw_1 s pw_1,
                      virtual_pw_2 := angles_to_pw_2 s pw_2,
                      commands := commands s @ [(pw_1, pw_2)]\<rparr>)
        else (Inl ValueError, s)
      else
        (Inr (), s\<lparr>rpi := (rpi s)(14 := pw_1, 15 := pw_2),
                    commands := commands s @ [(pw_1, pw_2)]\<rparr>))"

definition get_pulse_widths :: "brachiograph \<Rightarrow> real \<times> real" where
  "get_pulse_widths s =
     (if virtual_mode s then (virtual_pw_1 s, virtual_pw_2 s) else (rpi s 14, rpi s 15))"

definition quiet :: "brachiograph \<Rightarrow> brachiograph" where
  "quiet s = (if virtual_mode s then s else s\<lparr>rpi := (rpi s)(14 := 0, 15 := 0, 18 := 0)\<rparr>)"

subsection \<open>Pen-moving methods\<close>

definition set_angles :: "real \<Rightarrow> real \<Rightarrow> brachiograph \<Rightarrow> (error + unit) \<times> brachiograph" where
  "set_angles a1 a2 s =
     (case angles_to_pulse_widths a1 a2 s of (pw_1, pw_2) \<Rightarrow>
     (case set_pulse_widths pw_1 pw_2 s of
        (Inl e, s1) \<Rightarrow> (Inl e, s1)
      | (Inr u, s1) \<Rightarrow>
          (Inr (), s1\<lparr>angle_1 := Some a1, angle_2 := Some a2,
                       angles_used_1 := insert a1 (angles_used_1 s1),
                       angles_used_2 := insert a2 (angles_used_2 s1),
                       pulse_widths_used_1 := insert pw_1 (pulse_widths_used_1 s1),
                       pulse_widths_used_2 := insert pw_2 (pulse_widths_used_2 s1)\<rparr>)))"

text \<open>
  The interpolation loop of \<^verbatim>\<open>xy\<close>, \<^verbatim>\<open>for step in range(no_of_steps)\<close>: the position is
  advanced first, then converted, then sent to the servos. An exception leaves the
  object as it is at that moment.
\<close>

fun xy_steps :: "nat \<Rightarrow> real \<Rightarrow> real \<Rightarrow> brachiograph \<Rightarrow> (error + unit) \<times> brachiograph" where
  "xy_steps 0 length_of_step_x length_of_step_y s = (Inr (), s)"
| "xy_steps (Suc n) length_of_step_x length_of_step_y s =
     (let s1 = s\<lparr>current_x := current_x s + length_of_step_x,
                  current_y := current_y s + length_of_step_y\<rparr>
      in
     (case xy_to_angles (INNER_ARM s1) (OUTER_ARM s1) (current_x s1) (current_y s1) of
        Inl e \<Rightarrow> (Inl e, s1)
      | Inr (a1, a2) \<Rightarrow>
     (case set_angles a1 a2 s1 of
        (Inl e, s2) \<Rightarrow> (Inl e, s2)
      | (Inr u, s2) \<Rightarrow> xy_steps n length_of_step_x length_of_step_y s2)))"

text \<open>
  \<^verbatim>\<open>xy(x, y, wait, interpolate, draw)\<close>. \<^verbatim>\<open>int(length * interpolate) or 1\<close> is never zero,
  so the two divisions by \<open>no_of_steps\<close> cannot raise; \<^verbatim>\<open>range\<close> of a negative number is
  empty, which \<open>nat\<close> gives.
\<close>

definition xy :: "real \<Rightarrow> real \<Rightarrow> real \<Rightarrow> real \<Rightarrow> bool \<Rightarrow> brachiograph \<Rightarrow> (error + unit) \<times> brachiograph" where
  "xy x y wait interpolate draw s =
     (case (if draw then pen_down s else pen_up s) of
        (Inl e, s1) \<Rightarrow> (Inl e, s1)
      | (Inr u, s1) \<Rightarrow>
     (case xy_to_angles (INNER_ARM s1) (OUTER_ARM s1) x y of
        Inl e \<Rightarrow> (Inl e, s1)
      | Inr (a1, a2) \<Rightarrow>
          if angles_to_pulse_widths a1 a2 s1 = get_pulse_widths s1 then
            (Inr (), s1\<lparr>current_x := x, current_y := y\<rparr>)
          else
            (let x_length = x - current_x s1;
                 y_length = y - current_y s1
             in
            (case py_sqrt (x_length\<^sup>2 + y_length\<^sup>2) of
               Inl e \<Rightarrow> (Inl e, s1)
             | Inr len \<Rightarrow>
                 (let no_of_steps = (if py_int (len * interpolate) = 0 then 1
                                     else py_int (len * interpolate));
                      length_of_step_x = x_length / real_of_int no_of_steps;
                      length_of_step_y = y_length / real_of_int no_of_steps
                  in xy_steps (nat no_of_steps) length_of_step_x length_of_step_y s1)))))"

definition park :: "brachiograph \<Rightarrow> (error + unit) \<times> brachiograph" where
  "park s =
     (case pen_up s of
        (Inl e, s1) \<Rightarrow> (Inl e, s1)
      | (Inr u, s1) \<Rightarrow>
     (case xy (- INNER_ARM s1) (OUTER_ARM s1) (1 / 10) 10 False s1 of
        (Inl e, s2) \<Rightarrow> (Inl e, s2)
      | (Inr u, s2) \<Rightarrow> (Inr (), quiet s2)))"

subsection \<open>Constructors\<close>

text \<open>
  \<^verbatim>\<open>Pen.__init__\<close> with its defaults \<^verbatim>\<open>pin=18\<close>, \<^verbatim>\<open>transition_time=0.25\<close>: the attributes are
  set, then the pen goes up, down and up. In real mode the first \<^verbatim>\<open>up\<close> already fails,
  because \<^verbatim>\<open>virtual_mode\<close> was never assigned.
\<close>

definition Pen_init :: "real \<Rightarrow> real \<Rightarrow> brachiograph \<Rightarrow> (error + unit) \<times> brachiograph" where
  "Pen_init pw_up pw_down s =
     (let s0 = s\<lparr>pen := \<lparr>pen_virtual_mode = (if virtual_mode s then Some True else None),
                           pen_pin = 18, pen_pw_up = pw_up, pen_pw_down = pw_down,
                           pen_transition_time = 1 / 4, pen_virtual_pw = None\<rparr>\<rparr>
      in
     (case pen_up s0 of
        (Inl e, s1) \<Rightarrow> (Inl e, s1)
      | (Inr u, s1) \<Rightarrow>
     (case pen_down s1 of
        (Inl e, s2) \<Rightarrow> (Inl e, s2)
      | (Inr u, s2) \<Rightarrow> pen_up s2)))"

text \<open>
  \<^verbatim>\<open>BrachioGraph.__init__\<close>. \<open>virtual\<close> stands for
  \<^verbatim>\<open>virtual_mode or force_virtual_mode\<close>. \<open>fit_1\<close> and \<open>fit_2\<close> stand for the polynomials
  that \<^verbatim>\<open>numpy.poly1d(numpy.polyfit(...))\<close> returns when a table of angles and
  pulse-widths is supplied; \<open>None\<close> is the empty table, which selects the naive map.
  Attributes that Python has not created yet hold a placeholder that no method reads
  in that mode.
\<close>

definition BrachioGraph_init ::
  "real \<Rightarrow> real \<Rightarrow> bool \<Rightarrow> (real \<times> real \<times> real \<times> real) option \<Rightarrow>
   (real \<Rightarrow> real) option \<Rightarrow> (real \<Rightarrow> real) option \<Rightarrow>
   real \<Rightarrow> real \<Rightarrow> real \<Rightarrow> real \<Rightarrow> real \<Rightarrow> real \<Rightarrow> error + brachiograph" where
  "BrachioGraph_init inner_arm outer_arm virtual bnds fit_1 fit_2
       servo_1_zero servo_2_zero servo_1_degree_ms servo_2_degree_ms pw_up pw_down =
     (let s0 = \<lparr>INNER_ARM = inner_arm, OUTER_ARM = outer_arm, virtual_mode = virtual,
                bounds = bnds,
                angles_to_pw_1 = (case fit_1 of Some f \<Rightarrow> f
                   | None \<Rightarrow> naive_angles_to_pulse_widths_1 servo_1_degree_ms servo_1_zero),
                angles_to_pw_2 = (case fit_2 of Some f \<Rightarrow> f
                   | None \<Rightarrow> naive_angles_to_pulse_widths_2 servo_2_degree_ms servo_2_zero),
                pen = \<lparr>pen_virtual_mode = None, pen_pin = 18, pen_pw_up = pw_up,
                       pen_pw_down = pw_down, pen_transition_time = 1 / 4,
                       pen_virtual_pw = None\<rparr>,
                virtual_pw_1 = 0, virtual_pw_2 = 0, rpi = (\<lambda>pin. 0),
                current_x = 0, current_y = 0, angle_1 = None, angle_2 = None,
                angles_used_1 = {}, angles_used_2 = {},
                pulse_widths_used_1 = {}, pulse_widths_used_2 = {}, commands = []\<rparr>
      in
     (case Pen_init pw_up pw_down s0 of
        (Inl e, s1) \<Rightarrow> Inl e
      | (Inr u, s1) \<Rightarrow>
          (let s2 = (if virtual then
                       s1\<lparr>virtual_pw_1 := angles_to_pw_1 s1 (- 90),
                           virtual_pw_2 := angles_to_pw_2 s1 90\<rparr>
                     else
                       s1\<lparr>rpi := (rpi s1)(14 := angles_to_pw_1 s1 (- 90),
                                             15 := angles_to_pw_2 s1 90)\<rparr>)
           in Inr (s2\<lparr>current_x := - inner_arm, current_y := outer_arm\<rparr>))))"

subsection \<open>Drawing methods\<close>

definition pre_start_position :: "real \<times> real \<Rightarrow> real \<times> real \<Rightarrow> real \<times> real" where
  "pre_start_position start end_point =
     (case start of (start_x, start_y) \<Rightarrow>
      case end_point of (end_x, end_y) \<Rightarrow>
        (let diff_x = start_x - end_x;
             diff_y = start_y - end_y;
             pre_x = (if diff_x \<noteq> 0 then start_x + diff_x / \<bar>diff_x\<bar> / 2 else start_x);
             pre_y = (if diff_y \<noteq> 0 then start_y + diff_y / \<bar>diff_y\<bar> / 2 else start_y)
         in (pre_x, pre_y)))"

text \<open>
  \<^verbatim>\<open>plot_lines\<close> overwrites the points of its argument. Every point is a Python list
  \<^verbatim>\<open>[x, y]\<close> with an identity of its own, so a drawing is a list of lines, a line is a list
  of references, and the store maps a reference to the two coordinates it holds now.
\<close>

type_synonym store = "nat \<Rightarrow> real \<times> real"

text \<open>
  Lines 170--180: the sets of all x and all y values. \<^verbatim>\<open>zip(*line)\<close> of an empty line
  yields nothing, and unpacking nothing into two names raises \<^verbatim>\<open>ValueError\<close>.
\<close>

fun values_in_lines :: "store \<Rightarrow> nat list list \<Rightarrow> real set \<Rightarrow> real set \<Rightarrow> error + (real set \<times> real set)" where
  "values_in_lines h [] x_values_in_lines y_values_in_lines =
     Inr (x_values_in_lines, y_values_in_lines)"
| "values_in_lines h (line # lines) x_values_in_lines y_values_in_lines =
     (if line = [] then Inl ValueError
      else values_in_lines h lines
             (x_values_in_lines \<union> set (map (\<lambda>p. fst (h p)) line))
             (y_values_in_lines \<union> set (map (\<lambda>p. snd (h p)) line)))"

text \<open>
  Lines 207--216: the choice of orientation. The result is the divider, the final value
  of \<^verbatim>\<open>rotate\<close> and the two source mid-points, swapped when the plot is rotated.
\<close>

definition orientation ::
  "real \<Rightarrow> real \<Rightarrow> real \<Rightarrow> real \<Rightarrow> real \<Rightarrow> real \<Rightarrow> error + (real \<times> bool \<times> real \<times> real)" where
  "orientation x_range y_range x_mid_point y_mid_point box_x_range box_y_range =
     (if (x_range \<ge> y_range \<and> box_x_range \<ge> box_y_range)
         \<or> (x_range \<le> y_range \<and> box_x_range \<le> box_y_range) then
        (case py_div x_range box_x_range of Inl e \<Rightarrow> Inl e | Inr dx \<Rightarrow>
        (case py_div y_range box_y_range of Inl e \<Rightarrow> Inl e | Inr dy \<Rightarrow>
           Inr (max dx dy, False, x_mid_point, y_mid_point)))
      else
        (case py_div x_range box_y_range of Inl e \<Rightarrow> Inl e | Inr dx \<Rightarrow>
        (case py_div y_range box_x_range of Inl e \<Rightarrow> Inl e | Inr dy \<Rightarrow>
           Inr (max dx dy, True, y_mid_point, x_mid_point))))"

text \<open>
  Lines 170--216 together: from the drawing and the bounds to the divider, \<^verbatim>\<open>rotate\<close>, the
  source mid-points and the box mid-points.
\<close>

definition analyse_lines ::
  "store \<Rightarrow> nat list list \<Rightarrow> real \<times> real \<times> real \<times> real \<Rightarrow>
   error + (real \<times> bool \<times> real \<times> real \<times> real \<times> real)" where
  "analyse_lines h lines bnds =
     (case bnds of (b0, b1, b2, b3) \<Rightarrow>
     (case values_in_lines h lines {} {} of Inl e \<Rightarrow> Inl e | Inr (xs, ys) \<Rightarrow>
     (case py_min xs of Inl e \<Rightarrow> Inl e | Inr min_x \<Rightarrow>
     (case py_max xs of Inl e \<Rightarrow> Inl e | Inr max_x \<Rightarrow>
     (case py_min ys of Inl e \<Rightarrow> Inl e | Inr min_y \<Rightarrow>
     (case py_max ys of Inl e \<Rightarrow> Inl e | Inr max_y \<Rightarrow>
       (let x_range = max_x - min_x;
            y_range = max_y - min_y;
            x_mid_point = (max_x + min_x) / 2;
            y_mid_point = (max_y + min_y) / 2;
            box_x_range = b2 - b0;
            box_y_range = b3 - b1;
            box_x_mid_point = (b0 + b2) / 2;
            box_y_mid_point = (b1 + b3) / 2
        in
       (case orientation x_range y_range x_mid_point y_mid_point box_x_range box_y_range of
          Inl e \<Rightarrow> Inl e
        | Inr (divider, rotated, x_mid, y_mid) \<Rightarrow>
            Inr (divider, rotated, x_mid, y_mid, box_x_mid_point, box_y_mid_point)))))))))"

text \<open>
  Lines 222--241, the body of the inner loop for one point \<open>p\<close>. The swap is written to
  the point before anything is divided, and \<open>point[0]\<close> is written before \<open>y\<close> is
  computed, so the store is threaded through in that order.
\<close>

definition fit_point ::
  "real \<Rightarrow> bool \<Rightarrow> bool \<Rightarrow> real \<Rightarrow> real \<Rightarrow> real \<Rightarrow> real \<Rightarrow> nat \<Rightarrow> store \<Rightarrow> (error + unit) \<times> store" where
  "fit_point divider rotated flip x_mid_point y_mid_point box_x_mid_point box_y_mid_point p h =
     (let h1 = (if rotated then h(p := (snd (h p), fst (h p))) else h)
      in
     (case py_div (fst (h1 p) - x_mid_point) divider of
        Inl e \<Rightarrow> (Inl e, h1)
      | Inr x \<Rightarrow>
          (let x1 = x + box_x_mid_point;
               x2 = (if flip \<noteq> rotated then - x1 else x1);
               h2 = h1(p := (x2, snd (h1 p)))
           in
          (case py_div (snd (h2 p) - y_mid_point) divider of
             Inl e \<Rightarrow> (Inl e, h2)
           | Inr y \<Rightarrow> (Inr (), h2(p := (fst (h2 p), y + box_y_mid_point)))))))"

fun fit_line ::
  "real \<Rightarrow> bool \<Rightarrow> bool \<Rightarrow> real \<Rightarrow> real \<Rightarrow> real \<Rightarrow> real \<Rightarrow> nat list \<Rightarrow> store \<Rightarrow> (error + unit) \<times> store" where
  "fit_line divider rotated flip xm ym bxm bym [] h = (Inr (), h)"
| "fit_line divider rotated flip xm ym bxm bym (p # line) h =
     (case fit_point divider rotated flip xm ym bxm bym p h of
        (Inl e, h1) \<Rightarrow> (Inl e, h1)
      | (Inr u, h1) \<Rightarrow> fit_line divider rotated flip xm ym bxm bym line h1)"

fun fit_lines ::
  "real \<Rightarrow> bool \<Rightarrow> bool \<Rightarrow> real \<Rightarrow> real \<Rightarrow> real \<Rightarrow> real \<Rightarrow> nat list list \<Rightarrow> store \<Rightarrow> (error + unit) \<times> store" where
  "fit_lines divider rotated flip xm ym bxm bym [] h = (Inr (), h)"
| "fit_lines divider rotated flip xm ym bxm bym (line # lines) h =
     (case fit_line divider rotated flip xm ym bxm bym line h of
        (Inl e, h1) \<Rightarrow> (Inl e, h1)
      | (Inr u, h1) \<Rightarrow> fit_lines divider rotated flip xm ym bxm bym lines h1)"

text \<open>Lines 170--241: the whole fitting stage of \<^verbatim>\<open>plot_lines\<close>, once the bounds are known.\<close>

definition fit_stage ::
  "nat list list \<Rightarrow> bool \<Rightarrow> real \<times> real \<times> real \<times> real \<Rightarrow> store \<Rightarrow> (error + unit) \<times> store" where
  "fit_stage lines flip bnds h =
     (case analyse_lines h lines bnds of
        Inl e \<Rightarrow> (Inl e, h)
      | Inr (divider, rotated, x_mid, y_mid, box_x_mid, box_y_mid) \<Rightarrow>
          fit_lines divider rotated flip x_mid y_mid box_x_mid box_y_mid lines h)"

text \<open>Lines 251--253: \<^verbatim>\<open>for point in line[1:]\<close>.\<close>

fun draw_segments :: "store \<Rightarrow> nat list \<Rightarrow> real \<Rightarrow> real \<Rightarrow> brachiograph \<Rightarrow> (error + unit) \<times> brachiograph" where
  "draw_segments h [] wait interpolate s = (Inr (), s)"
| "draw_segments h (p # points) wait interpolate s =
     (case xy (fst (h p)) (snd (h p)) wait interpolate True s of
        (Inl e, s1) \<Rightarrow> (Inl e, s1)
      | (Inr u, s1) \<Rightarrow> draw_segments h points wait interpolate s1)"

text \<open>
  Lines 243--253. \<^verbatim>\<open>line[1]\<close> raises \<^verbatim>\<open>IndexError\<close> on a line of one point; the move to the
  first point of a line uses the defaults \<^verbatim>\<open>wait=.1\<close>, \<^verbatim>\<open>interpolate=10\<close>.
\<close>

fun draw_lines :: "store \<Rightarrow> nat list list \<Rightarrow> real \<Rightarrow> real \<Rightarrow> bool \<Rightarrow> brachiograph \<Rightarrow> (error + unit) \<times> brachiograph" where
  "draw_lines h [] wait interpolate pre_start s = (Inr (), s)"
| "draw_lines h (line # lines) wait interpolate pre_start s =
     (case (if pre_start then
              (case line of
                 p0 # p1 # rest \<Rightarrow>
                   (case pre_start_position (h p0) (h p1) of (pre_x, pre_y) \<Rightarrow>
                      xy pre_x pre_y wait interpolate False s)
               | _ \<Rightarrow> (Inl IndexError, s))
            else (Inr (), s)) of
        (Inl e, s1) \<Rightarrow> (Inl e, s1)
      | (Inr u, s1) \<Rightarrow>
     (case line of
        [] \<Rightarrow> (Inl IndexError, s1)
      | p0 # points \<Rightarrow>
     (case xy (fst (h p0)) (snd (h p0)) (1 / 10) 10 False s1 of
        (Inl e, s2) \<Rightarrow> (Inl e, s2)
      | (Inr u, s2) \<Rightarrow>
     (case draw_segments h points wait interpolate s2 of
        (Inl e, s3) \<Rightarrow> (Inl e, s3)
      | (Inr u, s3) \<Rightarrow> draw_lines h lines wait interpolate pre_start s3))))"

text \<open>
  \<^verbatim>\<open>plot_lines\<close>. The value returned is \<^verbatim>\<open>None\<close>, or the message when no bounds are set.
  The argument \<^verbatim>\<open>rotate\<close> (\<open>rotated\<close> here and below, since \<open>rotate\<close> is a list
  function of HOL) is overwritten before it is read.
\<close>

definition plot_lines ::
  "nat list list \<Rightarrow> real \<Rightarrow> real \<Rightarrow> bool \<Rightarrow> bool \<Rightarrow> bool \<Rightarrow> (real \<times> real \<times> real \<times> real) option \<Rightarrow>
   store \<times> brachiograph \<Rightarrow> (error + string option) \<times> store \<times> brachiograph" where
  "plot_lines lines wait interpolate pre_start rotated flip bnds hs =
     (case hs of (h, s) \<Rightarrow>
     (case (case bnds of Some b \<Rightarrow> Some b | None \<Rightarrow> bounds s) of
        None \<Rightarrow>
          (Inr (Some ''Line plotting is only possible when BrachioGraph.bounds is set.''), h, s)
      | Some b \<Rightarrow>
     (case fit_stage lines flip b h of
        (Inl e, h1) \<Rightarrow> (Inl e, h1, s)
      | (Inr u, h1) \<Rightarrow>
     (case draw_lines h1 lines wait interpolate pre_start s of
        (Inl e, s1) \<Rightarrow> (Inl e, h1, s1)
      | (Inr u, s1) \<Rightarrow>
     (case park s1 of
        (Inl e, s2) \<Rightarrow> (Inl e, h1, s2)
      | (Inr u, s2) \<Rightarrow> (Inr None, h1, s2))))))"

subsection \<open>Notions used to state the properties\<close>

text \<open>
  What one pass of the inner loop leaves in a point that held \<open>pt\<close>, when nothing is
  raised: swapped if the plot is rotated, centred, scaled, moved to the box mid-point,
  and negated in x when \<^verbatim>\<open>flip ^ rotate\<close>.
\<close>

definition fitted_point ::
  "real \<Rightarrow> bool \<Rightarrow> bool \<Rightarrow> real \<Rightarrow> real \<Rightarrow> real \<Rightarrow> real \<Rightarrow> real \<times> real \<Rightarrow> real \<times> real" where
  "fitted_point divider rotated flip x_mid_point y_mid_point box_x_mid_point box_y_mid_point pt =
     (let a = (if rotated then snd pt else fst pt);
          b = (if rotated then fst pt else snd pt);
          x = (a - x_mid_point) / divider + box_x_mid_point
      in (if flip \<noteq> rotated then - x else x, (b - y_mid_point) / divider + box_y_mid_point))"

text \<open>The extent of a drawing on each axis, as lines 184--190 compute it.\<close>

definition drawing_x_range :: "store \<Rightarrow> nat list list \<Rightarrow> real" where
  "drawing_x_range h lines =
     Max (set (map (\<lambda>p. fst (h p)) (concat lines))) - Min (set (map (\<lambda>p. fst (h p)) (concat lines)))"

definition drawing_y_range :: "store \<Rightarrow> nat list list \<Rightarrow> real" where
  "drawing_y_range h lines =
     Max (set (map (\<lambda>p. snd (h p)) (concat lines))) - Min (set (map (\<lambda>p. snd (h p)) (concat lines)))"



text \<open>
  The object that \<^verbatim>\<open>BrachioGraph(inner_arm, outer_arm, virtual_mode=True)\<close> constructs, all
  other arguments at their defaults.
\<close>

definition virtual_plotter :: "real \<Rightarrow> real \<Rightarrow> brachiograph" where
  "virtual_plotter inner_arm outer_arm =
     \<lparr>INNER_ARM = inner_arm, OUTER_ARM = outer_arm, virtual_mode = True, bounds = None,
      angles_to_pw_1 = naive_angles_to_pulse_widths_1 (- 10) 1500,
      angles_to_pw_2 = naive_angles_to_pulse_widths_2 10 1500,
      pen = \<lparr>pen_virtual_mode = Some True, pen_pin = 18, pen_pw_up = 1500,
             pen_pw_down = 1100, pen_transition_time = 1 / 4, pen_virtual_pw = Some 1500\<rparr>,
      virtual_pw_1 = 1500, virtual_pw_2 = 1500, rpi = (\<lambda>pin. 0),
      current_x = - inner_arm, current_y = outer_arm, angle_1 = None, angle_2 = None,
      angles_used_1 = {}, angles_used_2 = {},
      pulse_widths_used_1 = {}, pulse_widths_used_2 = {}, commands = []\<rparr>"


text \<open>A store holding the listed points at the references 0, 1, ...\<close>

definition store_of :: "(real \<times> real) list \<Rightarrow> store" where
  "store_of pts = (\<lambda>p. if p < length pts then pts ! p else (0, 0))"

text \<open>
  The plotter of arm lengths 8 and 8 after \<^verbatim>\<open>xy(0, 8, interpolate=0.1)\<close> from its parked
  position: one step, one accepted pair \<open>(1200, 1800)\<close>, and the two virtual pulse-widths
  holding \<^verbatim>\<open>angles_to_pw_1(1200)\<close> and \<^verbatim>\<open>angles_to_pw_2(1800)\<close>.
\<close>

definition plotter_after_first_move :: brachiograph where
  "plotter_after_first_move =
     (virtual_plotter 8 8)\<lparr>current_x := 0, current_y := 8,
        virtual_pw_1 := - 11400, virtual_pw_2 := 18600,
        angle_1 := Some (- 60), angle_2 := Some 120,
        angles_used_1 := {- 60}, angles_used_2 := {120},
        pulse_widths_used_1 := {1200}, pulse_widths_used_2 := {1800},
        commands := [(1200, 1800)]\<rparr>"

section \<open>Properties\<close>

subsection \<open>Kinematics\<close>

text \<open>
  The arguments of the two arc cosines lie in \<open>[-1, 1]\<close> exactly when the hypotenuse lies in
  the closed annulus between \<open>|inner - outer|\<close> and \<open>inner + outer\<close>.
\<close>

lemma inner_cosine_range:
  fixes h i o' :: real
  assumes "0 < h" "0 < i" "0 < o'"
  shows "(- 1 \<le> (h\<^sup>2 + i\<^sup>2 - o'\<^sup>2) / (2 * h * i) \<and> (h\<^sup>2 + i\<^sup>2 - o'\<^sup>2) / (2 * h * i) \<le> 1)
         \<longleftrightarrow> (\<bar>i - o'\<bar> \<le> h \<and> h \<le> i + o')"
proof -
  have pos: "0 < 2 * h * i" using assms by simp
  have up: "(h\<^sup>2 + i\<^sup>2 - o'\<^sup>2) / (2 * h * i) \<le> 1 \<longleftrightarrow> (h - i)\<^sup>2 \<le> o'\<^sup>2"
    using pos by (simp add: field_simps power2_eq_square)
  have lo: "- 1 \<le> (h\<^sup>2 + i\<^sup>2 - o'\<^sup>2) / (2 * h * i) \<longleftrightarrow> o'\<^sup>2 \<le> (h + i)\<^sup>2"
    using pos by (simp add: field_simps power2_eq_square)
  have up': "(h - i)\<^sup>2 \<le> o'\<^sup>2 \<longleftrightarrow> \<bar>h - i\<bar> \<le> o'"
    using assms abs_le_square_iff[of "h - i" o'] by simp
  have lo': "o'\<^sup>2 \<le> (h + i)\<^sup>2 \<longleftrightarrow> o' \<le> h + i"
    using assms abs_le_square_iff[of o' "h + i"] by simp
  show ?thesis unfolding up lo up' lo' by linarith
qed

lemma outer_cosine_range:
  fixes h i o' :: real
  assumes "0 \<le> h" "0 < i" "0 < o'"
  shows "(- 1 \<le> (i\<^sup>2 + o'\<^sup>2 - h\<^sup>2) / (2 * i * o') \<and> (i\<^sup>2 + o'\<^sup>2 - h\<^sup>2) / (2 * i * o') \<le> 1)
         \<longleftrightarrow> (\<bar>i - o'\<bar> \<le> h \<and> h \<le> i + o')"
proof -
  have pos: "0 < 2 * i * o'" using assms by simp
  have up: "(i\<^sup>2 + o'\<^sup>2 - h\<^sup>2) / (2 * i * o') \<le> 1 \<longleftrightarrow> (i - o')\<^sup>2 \<le> h\<^sup>2"
    using pos by (simp add: field_simps power2_eq_square)
  have lo: "- 1 \<le> (i\<^sup>2 + o'\<^sup>2 - h\<^sup>2) / (2 * i * o') \<longleftrightarrow> h\<^sup>2 \<le> (i + o')\<^sup>2"
    using pos by (simp add: field_simps power2_eq_square)
  have up': "(i - o')\<^sup>2 \<le> h\<^sup>2 \<longleftrightarrow> \<bar>i - o'\<bar> \<le> h"
    using assms abs_le_square_iff[of "i - o'" h] by simp
  have lo': "h\<^sup>2 \<le> (i + o')\<^sup>2 \<longleftrightarrow> h \<le> i + o'"
    using assms abs_le_square_iff[of h "i + o'"] by simp
  show ?thesis unfolding up lo up' lo' by linarith
qed

lemma sine_range:
  fixes x y :: real
  assumes "sqrt (x\<^sup>2 + y\<^sup>2) \<noteq> 0"
  shows "- 1 \<le> x / sqrt (x\<^sup>2 + y\<^sup>2) \<and> x / sqrt (x\<^sup>2 + y\<^sup>2) \<le> 1"
proof -
  have "sqrt (x\<^sup>2) \<le> sqrt (x\<^sup>2 + y\<^sup>2)" by (rule real_sqrt_le_mono) simp
  then have le: "\<bar>x\<bar> \<le> sqrt (x\<^sup>2 + y\<^sup>2)" by simp
  have pos: "0 < sqrt (x\<^sup>2 + y\<^sup>2)"
    using assms real_sqrt_ge_zero[of "x\<^sup>2 + y\<^sup>2"] by (simp add: less_le)
  show ?thesis using le pos by (simp add: field_simps abs_le_iff)
qed

lemma xy_to_angles_value:
  assumes "0 < i" "0 < o'" "sqrt (x\<^sup>2 + y\<^sup>2) \<noteq> 0"
    and "\<bar>i - o'\<bar> \<le> sqrt (x\<^sup>2 + y\<^sup>2)" "sqrt (x\<^sup>2 + y\<^sup>2) \<le> i + o'"
  shows "xy_to_angles i o' x y =
     Inr (degrees (arcsin (x / sqrt (x\<^sup>2 + y\<^sup>2))
                   - arccos (((sqrt (x\<^sup>2 + y\<^sup>2))\<^sup>2 + i\<^sup>2 - o'\<^sup>2) / (2 * sqrt (x\<^sup>2 + y\<^sup>2) * i))),
          degrees (pi - arccos ((i\<^sup>2 + o'\<^sup>2 - (sqrt (x\<^sup>2 + y\<^sup>2))\<^sup>2) / (2 * i * o'))))"
proof -
  let ?h = "sqrt (x\<^sup>2 + y\<^sup>2)"
  have hpos: "0 < ?h" using assms(3) real_sqrt_ge_zero[of "x\<^sup>2 + y\<^sup>2"] by (simp add: less_le)
  have s: "- 1 \<le> x / ?h \<and> x / ?h \<le> 1" using sine_range[OF assms(3)] .
  have c1: "- 1 \<le> (?h\<^sup>2 + i\<^sup>2 - o'\<^sup>2) / (2 * ?h * i) \<and> (?h\<^sup>2 + i\<^sup>2 - o'\<^sup>2) / (2 * ?h * i) \<le> 1"
    using inner_cosine_range[OF hpos assms(1,2)] assms(4,5) by blast
  have c2: "- 1 \<le> (i\<^sup>2 + o'\<^sup>2 - ?h\<^sup>2) / (2 * i * o') \<and> (i\<^sup>2 + o'\<^sup>2 - ?h\<^sup>2) / (2 * i * o') \<le> 1"
    using outer_cosine_range[OF less_imp_le[OF hpos] assms(1,2)] assms(4,5) by blast
  have nz: "2 * ?h * i \<noteq> 0" "2 * i * o' \<noteq> 0" using hpos assms(1,2) by auto
  have nn: "\<not> x\<^sup>2 + y\<^sup>2 < 0" by (simp add: not_less)
  show ?thesis
    unfolding xy_to_angles_def py_sqrt_def py_div_def py_asin_def py_acos_def
    using s c1 c2 nz nn assms(3) by (simp del: real_sqrt_eq_zero_cancel_iff)
qed

lemma xy_to_angles_origin:
  assumes "sqrt (x\<^sup>2 + y\<^sup>2) = 0"
  shows "xy_to_angles i o' x y = Inl ZeroDivisionError"
  using assms unfolding xy_to_angles_def py_sqrt_def py_div_def by (simp add: not_less)

lemma xy_to_angles_outside:
  assumes "0 < i" "0 < o'" "sqrt (x\<^sup>2 + y\<^sup>2) \<noteq> 0"
    and "sqrt (x\<^sup>2 + y\<^sup>2) < \<bar>i - o'\<bar> \<or> i + o' < sqrt (x\<^sup>2 + y\<^sup>2)"
  shows "xy_to_angles i o' x y = Inl ValueError"
proof -
  let ?h = "sqrt (x\<^sup>2 + y\<^sup>2)"
  have hpos: "0 < ?h" using assms(3) real_sqrt_ge_zero[of "x\<^sup>2 + y\<^sup>2"] by (simp add: less_le)
  have s: "- 1 \<le> x / ?h \<and> x / ?h \<le> 1" using sine_range[OF assms(3)] .
  have c1: "\<not> (- 1 \<le> (?h\<^sup>2 + i\<^sup>2 - o'\<^sup>2) / (2 * ?h * i) \<and> (?h\<^sup>2 + i\<^sup>2 - o'\<^sup>2) / (2 * ?h * i) \<le> 1)"
    using inner_cosine_range[OF hpos assms(1,2)] assms(4) by linarith
  have nz: "2 * ?h * i \<noteq> 0" using hpos assms(1) by auto
  have nn: "\<not> x\<^sup>2 + y\<^sup>2 < 0" by (simp add: not_less)
  show ?thesis
    unfolding xy_to_angles_def py_sqrt_def py_div_def py_asin_def py_acos_def
    using s c1 nz nn assms(2,3) by (simp del: real_sqrt_eq_zero_cancel_iff)
qed






text \<open>
  \<^bold>\<open>C3.\<close> With positive arm lengths, \<^verbatim>\<open>xy_to_angles\<close> raises exactly on the unreachable
  targets: at the pivot (hypotenuse 0) the division \<^verbatim>\<open>x/hypotenuse\<close> raises
  \<^verbatim>\<open>ZeroDivisionError\<close>; for a hypotenuse below \<open>|inner - outer|\<close> or above
  \<open>inner + outer\<close> the first \<^verbatim>\<open>math.acos\<close> raises \<^verbatim>\<open>ValueError\<close>; strictly inside the annulus
  a pair of angles is returned. These two built-in exceptions are what the specification
  names \<^verbatim>\<open>UnreachablePositionError\<close>.
\<close>

theorem xy_to_angles_raises_iff_unreachable:
  assumes "0 < inner_arm" "0 < outer_arm"
  shows "(sqrt (x\<^sup>2 + y\<^sup>2) = 0 \<longrightarrow> xy_to_angles inner_arm outer_arm x y = Inl ZeroDivisionError)
       \<and> (sqrt (x\<^sup>2 + y\<^sup>2) \<noteq> 0 \<and>
            (sqrt (x\<^sup>2 + y\<^sup>2) < \<bar>inner_arm - outer_arm\<bar> \<or> inner_arm + outer_arm < sqrt (x\<^sup>2 + y\<^sup>2))
          \<longrightarrow> xy_to_angles inner_arm outer_arm x y = Inl ValueError)
       \<and> (\<bar>inner_arm - outer_arm\<bar> < sqrt (x\<^sup>2 + y\<^sup>2) \<and> sqrt (x\<^sup>2 + y\<^sup>2) < inner_arm + outer_arm
          \<longrightarrow> (\<exists>angles. xy_to_angles inner_arm outer_arm x y = Inr angles))"
proof (intro conjI impI)
  assume "sqrt (x\<^sup>2 + y\<^sup>2) = 0"
  then show "xy_to_angles inner_arm outer_arm x y = Inl ZeroDivisionError"
    by (rule xy_to_angles_origin)
next
  assume "sqrt (x\<^sup>2 + y\<^sup>2) \<noteq> 0 \<and>
    (sqrt (x\<^sup>2 + y\<^sup>2) < \<bar>inner_arm - outer_arm\<bar> \<or> inner_arm + outer_arm < sqrt (x\<^sup>2 + y\<^sup>2))"
  then show "xy_to_angles inner_arm outer_arm x y = Inl ValueError"
    using xy_to_angles_outside[OF assms] by blast
next
  assume a: "\<bar>inner_arm - outer_arm\<bar> < sqrt (x\<^sup>2 + y\<^sup>2) \<and> sqrt (x\<^sup>2 + y\<^sup>2) < inner_arm + outer_arm"
  then have "sqrt (x\<^sup>2 + y\<^sup>2) \<noteq> 0" by linarith
  then show "\<exists>angles. xy_to_angles inner_arm outer_arm x y = Inr angles"
    using xy_to_angles_value[OF assms, of x y] a by simp
qed

theorem xy_to_angles_raises_iff_unreachable_witness:
  "xy_to_angles 8 8 0 0 = Inl ZeroDivisionError
   \<and> xy_to_angles 8 8 0 20 = Inl ValueError
   \<and> xy_to_angles 8 2 0 3 = Inl ValueError
   \<and> (\<exists>angles. xy_to_angles 8 8 0 8 = Inr angles)"
  using xy_to_angles_raises_iff_unreachable[of 8 8 0 0]
        xy_to_angles_raises_iff_unreachable[of 8 8 0 20]
        xy_to_angles_raises_iff_unreachable[of 8 2 0 3]
        xy_to_angles_raises_iff_unreachable[of 8 8 0 8]
  by simp





subsection \<open>The fitting stage of \<^verbatim>\<open>plot_lines\<close>\<close>

text \<open>What the three loops compute when nothing is raised, and when they raise.\<close>

lemma values_in_lines_all:
  "[] \<notin> set lines \<Longrightarrow>
   values_in_lines h lines X Y =
     Inr (X \<union> set (map (\<lambda>p. fst (h p)) (concat lines)),
          Y \<union> set (map (\<lambda>p. snd (h p)) (concat lines)))"
proof (induction lines arbitrary: X Y)
  case Nil
  then show ?case by simp
next
  case (Cons line lines)
  then have "line \<noteq> []" and "[] \<notin> set lines" by auto
  then show ?case using Cons.IH by (simp add: Un_assoc)
qed

lemma values_in_lines_empty_line:
  "[] \<in> set lines \<Longrightarrow> values_in_lines h lines X Y = Inl ValueError"
  by (induction lines arbitrary: X Y) auto

lemma fit_point_ok:
  assumes "divider \<noteq> 0"
  shows "fit_point divider rotated flip xm ym bxm bym p h =
           (Inr (), h(p := fitted_point divider rotated flip xm ym bxm bym (h p)))"
  using assms by (auto simp: fit_point_def fitted_point_def py_div_def Let_def)

lemma fit_point_zero_divider:
  "fst (fit_point 0 rotated flip xm ym bxm bym p h) = Inl ZeroDivisionError"
  by (simp add: fit_point_def py_div_def Let_def)

lemma fit_line_ok:
  assumes "divider \<noteq> 0" "distinct line"
  shows "fit_line divider rotated flip xm ym bxm bym line h =
           (Inr (), (\<lambda>p. if p \<in> set line
                          then fitted_point divider rotated flip xm ym bxm bym (h p) else h p))"
  using assms(2)
proof (induction line arbitrary: h)
  case Nil
  then show ?case by simp
next
  case (Cons a line)
  let ?h1 = "h(a := fitted_point divider rotated flip xm ym bxm bym (h a))"
  have d: "distinct line" and na: "a \<notin> set line" using Cons.prems by auto
  have "fit_line divider rotated flip xm ym bxm bym (a # line) h
        = fit_line divider rotated flip xm ym bxm bym line ?h1"
    by (simp add: fit_point_ok[OF assms(1)])
  also have "\<dots> = (Inr (), (\<lambda>p. if p \<in> set line
                then fitted_point divider rotated flip xm ym bxm bym (?h1 p) else ?h1 p))"
    by (rule Cons.IH[OF d])
  also have "(\<lambda>p. if p \<in> set line
                then fitted_point divider rotated flip xm ym bxm bym (?h1 p) else ?h1 p)
           = (\<lambda>p. if p \<in> set (a # line)
                then fitted_point divider rotated flip xm ym bxm bym (h p) else h p)"
    using na by (auto simp: fun_eq_iff)
  finally show ?case .
qed

lemma fit_lines_ok:
  assumes "divider \<noteq> 0" "distinct (concat lines)"
  shows "fit_lines divider rotated flip xm ym bxm bym lines h =
           (Inr (), (\<lambda>p. if p \<in> set (concat lines)
                          then fitted_point divider rotated flip xm ym bxm bym (h p) else h p))"
  using assms(2)
proof (induction lines arbitrary: h)
  case Nil
  then show ?case by simp
next
  case (Cons line lines)
  let ?f = "fitted_point divider rotated flip xm ym bxm bym"
  let ?h1 = "\<lambda>p. if p \<in> set line then ?f (h p) else h p"
  have dl: "distinct line" and dr: "distinct (concat lines)"
    and dis: "set line \<inter> set (concat lines) = {}"
    using Cons.prems by auto
  have "fit_lines divider rotated flip xm ym bxm bym (line # lines) h
        = fit_lines divider rotated flip xm ym bxm bym lines ?h1"
    by (simp add: fit_line_ok[OF assms(1) dl])
  also have "\<dots> = (Inr (), (\<lambda>p. if p \<in> set (concat lines) then ?f (?h1 p) else ?h1 p))"
    by (rule Cons.IH[OF dr])
  also have "(\<lambda>p. if p \<in> set (concat lines) then ?f (?h1 p) else ?h1 p)
           = (\<lambda>p. if p \<in> set (concat (line # lines)) then ?f (h p) else h p)"
    using dis by (auto simp: fun_eq_iff)
  finally show ?case .
qed

lemma fit_line_never_raises:
  "divider \<noteq> 0 \<Longrightarrow> fst (fit_line divider rotated flip xm ym bxm bym line h) = Inr ()"
  by (induction line arbitrary: h) (simp_all add: fit_point_ok)

lemma fit_lines_never_raises:
  "divider \<noteq> 0 \<Longrightarrow> fst (fit_lines divider rotated flip xm ym bxm bym lines h) = Inr ()"
proof (induction lines arbitrary: h)
  case Nil
  then show ?case by simp
next
  case (Cons line lines)
  obtain h1 where "fit_line divider rotated flip xm ym bxm bym line h = (Inr (), h1)"
    using fit_line_never_raises[OF Cons.prems, of rotated flip xm ym bxm bym line h]
    by (cases "fit_line divider rotated flip xm ym bxm bym line h") auto
  then show ?case using Cons by simp
qed

lemma fit_lines_zero_divider:
  assumes "lines \<noteq> []" "[] \<notin> set lines"
  shows "fst (fit_lines 0 rotated flip xm ym bxm bym lines h) = Inl ZeroDivisionError"
proof -
  obtain p line rest where l: "lines = (p # line) # rest"
    using assms by (cases lines; cases "hd lines") auto
  obtain h1 where "fit_point 0 rotated flip xm ym bxm bym p h = (Inl ZeroDivisionError, h1)"
    using fit_point_zero_divider[of rotated flip xm ym bxm bym p h]
    by (cases "fit_point 0 rotated flip xm ym bxm bym p h") auto
  then show ?thesis unfolding l by simp
qed


lemma analyse_lines_value:
  assumes "lines \<noteq> []" "[] \<notin> set lines"
  shows "analyse_lines h lines (b0, b1, b2, b3) =
     (case orientation (drawing_x_range h lines) (drawing_y_range h lines)
             ((Max (set (map (\<lambda>p. fst (h p)) (concat lines)))
               + Min (set (map (\<lambda>p. fst (h p)) (concat lines)))) / 2)
             ((Max (set (map (\<lambda>p. snd (h p)) (concat lines)))
               + Min (set (map (\<lambda>p. snd (h p)) (concat lines)))) / 2)
             (b2 - b0) (b3 - b1) of
        Inl e \<Rightarrow> Inl e
      | Inr (divider, rotated, x_mid, y_mid) \<Rightarrow>
          Inr (divider, rotated, x_mid, y_mid, (b0 + b2) / 2, (b1 + b3) / 2))"
proof -
  define X where "X = set (map (\<lambda>p. fst (h p)) (concat lines))"
  define Y where "Y = set (map (\<lambda>p. snd (h p)) (concat lines))"
  have ne: "concat lines \<noteq> []" using assms by (cases lines) auto
  have X: "X \<noteq> {}" and Y: "Y \<noteq> {}" unfolding X_def Y_def using ne by simp_all
  have v: "values_in_lines h lines {} {} = Inr (X, Y)"
    unfolding X_def Y_def using values_in_lines_all[OF assms(2), of h "{}" "{}"] by simp
  have "analyse_lines h lines (b0, b1, b2, b3) =
     (case orientation (Max X - Min X) (Max Y - Min Y) ((Max X + Min X) / 2) ((Max Y + Min Y) / 2)
             (b2 - b0) (b3 - b1) of
        Inl e \<Rightarrow> Inl e
      | Inr (divider, rotated, x_mid, y_mid) \<Rightarrow>
          Inr (divider, rotated, x_mid, y_mid, (b0 + b2) / 2, (b1 + b3) / 2))"
    using X Y by (simp add: analyse_lines_def v py_min_def py_max_def Let_def)
  then show ?thesis unfolding drawing_x_range_def drawing_y_range_def X_def Y_def .
qed

lemma range_nonneg:
  fixes f :: "nat \<Rightarrow> real"
  assumes "xs \<noteq> []"
  shows "0 \<le> Max (set (map f xs)) - Min (set (map f xs))"
proof -
  have fin: "finite (set (map f xs))" by simp
  have mem: "f (hd xs) \<in> set (map f xs)" using assms by (cases xs) simp_all
  have "Min (set (map f xs)) \<le> f (hd xs)" by (rule Min_le[OF fin mem])
  moreover have "f (hd xs) \<le> Max (set (map f xs))" by (rule Max_ge[OF fin mem])
  ultimately show ?thesis by linarith
qed

lemma max_quotients_zero:
  fixes a b c d :: real
  assumes "0 \<le> a" "0 \<le> b" "0 < c" "0 < d"
  shows "max (a / c) (b / d) = 0 \<longleftrightarrow> a = 0 \<and> b = 0"
proof -
  have "0 \<le> a / c" "0 \<le> b / d" using assms by simp_all
  moreover have "a / c = 0 \<longleftrightarrow> a = 0" "b / d = 0 \<longleftrightarrow> b = 0" using assms by simp_all
  ultimately show ?thesis by (auto simp: max_def)
qed

lemma orientation_divider:
  assumes "0 \<le> xr" "0 \<le> yr" "0 < bxr" "0 < byr"
  shows "(case orientation xr yr xm ym bxr byr of
            Inl e \<Rightarrow> False
          | Inr (d, r, xm', ym') \<Rightarrow> (d = 0 \<longleftrightarrow> xr = 0 \<and> yr = 0))"
  using assms(3,4) max_quotients_zero[OF assms(1,2,3,4)] max_quotients_zero[OF assms(1,2,4,3)]
  by (simp add: orientation_def py_div_def)


lemma store_of_two [simp]:
  "store_of [a, b] 0 = a" "store_of [a, b] (Suc 0) = b"
  by (simp_all add: store_of_def)

lemma analyse_two_points:
  "analyse_lines (store_of [(x0, y0), (x1, y1)]) [[0, Suc 0]] (b0, b1, b2, b3) =
     (case orientation (max x0 x1 - min x0 x1) (max y0 y1 - min y0 y1)
             ((max x0 x1 + min x0 x1) / 2) ((max y0 y1 + min y0 y1) / 2) (b2 - b0) (b3 - b1) of
        Inl e \<Rightarrow> Inl e
      | Inr (divider, rotated, x_mid, y_mid) \<Rightarrow>
          Inr (divider, rotated, x_mid, y_mid, (b0 + b2) / 2, (b1 + b3) / 2))"
  by (simp add: analyse_lines_def py_min_def py_max_def Let_def max.commute min.commute)


text \<open>
  \<^bold>\<open>C10.\<close> Called with an empty drawing and with bounds configured (passed, or set on the
  object), \<^verbatim>\<open>plot_lines\<close> raises \<^verbatim>\<open>ValueError\<close> from \<^verbatim>\<open>min\<close> of the empty set of x values;
  no point and no attribute has been written by then.
\<close>

theorem plot_lines_empty_drawing_raises:
  assumes "(case bnds of Some b \<Rightarrow> Some b | None \<Rightarrow> bounds s) \<noteq> None"
  shows "plot_lines [] wait interpolate pre_start rotated flip bnds (h, s) = (Inl ValueError, h, s)"
  using assms
  by (auto simp: plot_lines_def fit_stage_def analyse_lines_def py_min_def
           split: option.splits prod.splits)

theorem plot_lines_empty_drawing_raises_witness:
  "plot_lines [] (1 / 10) 10 False False False (Some (0, 0, 10, 10))
     (store_of [], virtual_plotter 8 8) = (Inl ValueError, store_of [], virtual_plotter 8 8)
   \<and> plot_lines [] (1 / 10) 10 False False False None
     (store_of [], (virtual_plotter 8 8)\<lparr>bounds := Some (- 8, 4, 6, 13)\<rparr>)
       = (Inl ValueError, store_of [], (virtual_plotter 8 8)\<lparr>bounds := Some (- 8, 4, 6, 13)\<rparr>)"
  using plot_lines_empty_drawing_raises[where bnds = "Some (0, 0, 10, 10)"
          and s = "virtual_plotter 8 8" and wait = "1 / 10" and interpolate = 10
          and pre_start = False and rotated = False and flip = False and h = "store_of []"]
        plot_lines_empty_drawing_raises[where bnds = None
          and s = "(virtual_plotter 8 8)\<lparr>bounds := Some (- 8, 4, 6, 13)\<rparr>"
          and wait = "1 / 10" and interpolate = 10
          and pre_start = False and rotated = False and flip = False and h = "store_of []"]
  by simp

text \<open>
  \<^bold>\<open>C6\<close> (as stated, refuted). The drawing with bounding box \<open>(0,0)-(10,20)\<close> and the bounds
  \<open>(-5,-5,5,5)\<close>: the rule \<open>(xRange \<ge> yRange) \<noteq> (boxXRange \<ge> boxYRange)\<close> holds, yet the code
  does not rotate, because its second disjunct \<^verbatim>\<open>x_range <= y_range and box_x_range <= box_y_range\<close>
  is true for a square box. The divider is 2 all the same.
\<close>

theorem tall_drawing_square_box_not_rotated_counterexample:
  "(((10::real) \<ge> 20) \<noteq> ((10::real) \<ge> 10))
   \<and> analyse_lines (store_of [(0, 0), (10, 20)]) [[0, Suc 0]] (- 5, - 5, 5, 5)
       = Inr (2, False, 5, 10, 0, 0)"
  by (simp add: analyse_two_points orientation_def py_div_def)

text \<open>
  \<^bold>\<open>C6\<close> (amended). For box ranges other than zero, \<^verbatim>\<open>plot_lines\<close> rotates exactly when the
  drawing is strictly wider than tall and the box strictly taller than wide, or the other
  way round; then the divider is \<open>max (xRange / boxYRange) (yRange / boxXRange)\<close> and the
  mid-points are swapped. In every other case, ties included, it does not rotate and the
  divider is \<open>max (xRange / boxXRange) (yRange / boxYRange)\<close>.
\<close>

theorem orientation_rotates_iff_strictly_opposite:
  assumes "box_x_range \<noteq> 0" "box_y_range \<noteq> 0"
  shows "orientation x_range y_range x_mid_point y_mid_point box_x_range box_y_range =
     (if (y_range < x_range \<and> box_x_range < box_y_range)
         \<or> (x_range < y_range \<and> box_y_range < box_x_range)
      then Inr (max (x_range / box_y_range) (y_range / box_x_range), True,
                y_mid_point, x_mid_point)
      else Inr (max (x_range / box_x_range) (y_range / box_y_range), False,
                x_mid_point, y_mid_point))"
  using assms by (auto simp: orientation_def py_div_def)

theorem orientation_rotates_iff_strictly_opposite_witness:
  "orientation 10 20 5 10 10 10 = Inr (2, False, 5, 10)
   \<and> orientation 20 10 10 5 5 10 = Inr (2, True, 5, 10)"
  using orientation_rotates_iff_strictly_opposite[of 10 10 10 20 5 10]
        orientation_rotates_iff_strictly_opposite[of 5 10 20 10 10 5]
  by simp

text \<open>
  \<^bold>\<open>C7\<close> (as stated, refuted). The drawing \<open>(0,0), (0,10)\<close> has x-extent 0. Fitted into
  \<open>(0,0,10,10)\<close> its divider is 1, nothing is raised, and the points become \<open>(5,0)\<close> and
  \<open>(5,10)\<close>.
\<close>

theorem empty_x_extent_fits_counterexample:
  "drawing_x_range (store_of [(0, 0), (0, 10)]) [[0, Suc 0]] = 0
   \<and> analyse_lines (store_of [(0, 0), (0, 10)]) [[0, Suc 0]] (0, 0, 10, 10)
       = Inr (1, False, 0, 5, 5, 5)
   \<and> fit_stage [[0, Suc 0]] False (0, 0, 10, 10) (store_of [(0, 0), (0, 10)])
       = (Inr (), (store_of [(0, 0), (0, 10)])(0 := (5, 0), Suc 0 := (5, 10)))"
proof -
  have a: "analyse_lines (store_of [(0, 0), (0, 10)]) [[0, Suc 0]] (0, 0, 10, 10)
       = Inr (1, False, 0, 5, 5, 5)"
    by (simp add: analyse_two_points orientation_def py_div_def)
  have "fit_stage [[0, Suc 0]] False (0, 0, 10, 10) (store_of [(0, 0), (0, 10)])
       = (Inr (), (store_of [(0, 0), (0, 10)])(0 := (5, 0), Suc 0 := (5, 10)))"
    by (simp add: fit_stage_def a fit_point_ok fitted_point_def fun_upd_twist)
  then show ?thesis using a by (simp add: drawing_x_range_def)
qed

text \<open>
  \<^bold>\<open>C7\<close> (amended). For bounds with \<open>minX < maxX\<close> and \<open>minY < maxY\<close> and a drawing of at
  least one line, no line empty: the fitting stage raises exactly when the x-extent and
  the y-extent are both 0, and what it raises is the \<^verbatim>\<open>ZeroDivisionError\<close> of the first
  division by the divider 0. With one extent positive it raises nothing.
\<close>

theorem fit_stage_raises_iff_single_point:
  assumes "b0 < b2" "b1 < b3" "lines \<noteq> []" "[] \<notin> set lines"
  shows "fst (fit_stage lines flip (b0, b1, b2, b3) h) =
           (if drawing_x_range h lines = 0 \<and> drawing_y_range h lines = 0 then Inl ZeroDivisionError else Inr ())"
proof -
  have ne: "concat lines \<noteq> []" using assms(3,4) by (cases lines) auto
  have xr: "0 \<le> drawing_x_range h lines" unfolding drawing_x_range_def by (rule range_nonneg[OF ne])
  have yr: "0 \<le> drawing_y_range h lines" unfolding drawing_y_range_def by (rule range_nonneg[OF ne])
  have bx: "0 < b2 - b0" and "by": "0 < b3 - b1" using assms(1,2) by simp_all
  obtain d r xm' ym' where
    o: "orientation (drawing_x_range h lines) (drawing_y_range h lines)
             ((Max (set (map (\<lambda>p. fst (h p)) (concat lines)))
               + Min (set (map (\<lambda>p. fst (h p)) (concat lines)))) / 2)
             ((Max (set (map (\<lambda>p. snd (h p)) (concat lines)))
               + Min (set (map (\<lambda>p. snd (h p)) (concat lines)))) / 2)
             (b2 - b0) (b3 - b1) = Inr (d, r, xm', ym')"
    and d: "d = 0 \<longleftrightarrow> drawing_x_range h lines = 0 \<and> drawing_y_range h lines = 0"
    using orientation_divider[OF xr yr bx "by", of
        "(Max (set (map (\<lambda>p. fst (h p)) (concat lines)))
               + Min (set (map (\<lambda>p. fst (h p)) (concat lines)))) / 2"
        "(Max (set (map (\<lambda>p. snd (h p)) (concat lines)))
               + Min (set (map (\<lambda>p. snd (h p)) (concat lines)))) / 2"]
    by (auto split: sum.splits)
  have st: "fit_stage lines flip (b0, b1, b2, b3) h
            = fit_lines d r flip xm' ym' ((b0 + b2) / 2) ((b1 + b3) / 2) lines h"
    unfolding fit_stage_def analyse_lines_value[OF assms(3,4)] o by simp
  show ?thesis
  proof (cases "d = 0")
    case True
    then show ?thesis
      using st d fit_lines_zero_divider[OF assms(3,4)] by simp
  next
    case False
    then show ?thesis
      using st d fit_lines_never_raises[OF False] by simp
  qed
qed

theorem fit_stage_raises_iff_single_point_witness:
  "fst (fit_stage [[0, Suc 0]] False (0, 0, 10, 10) (store_of [(3, 4), (3, 4)])) = Inl ZeroDivisionError
   \<and> fst (fit_stage [[0, Suc 0]] False (0, 0, 10, 10) (store_of [(0, 0), (0, 10)])) = Inr ()"
  using fit_stage_raises_iff_single_point[of 0 10 0 10 "[[0, Suc 0]]" False "store_of [(3, 4), (3, 4)]"]
        fit_stage_raises_iff_single_point[of 0 10 0 10 "[[0, Suc 0]]" False "store_of [(0, 0), (0, 10)]"]
  by (simp add: drawing_x_range_def drawing_y_range_def)



text \<open>
  Containment in the bounds, for the calls in which \<open>x\<close> is not negated (\<^verbatim>\<open>flip\<close> equal to the
  final \<^verbatim>\<open>rotate\<close>): every fitted point lies in the bounds, edges included.
\<close>

lemma scaled_within:
  fixes v lo hi B d bmid :: real
  assumes "lo \<le> v" "v \<le> hi" "0 < B" "0 < d" "(hi - lo) / B \<le> d"
  shows "bmid - B / 2 \<le> (v - (hi + lo) / 2) / d + bmid
       \<and> (v - (hi + lo) / 2) / d + bmid \<le> bmid + B / 2"
proof -
  have r: "hi - lo \<le> d * B" using assms(3,5) by (simp add: field_simps)
  have "\<bar>v - (hi + lo) / 2\<bar> * 2 \<le> hi - lo" using assms(1,2) by (simp add: abs_le_iff field_simps)
  then have "\<bar>v - (hi + lo) / 2\<bar> * 2 \<le> d * B" using r by linarith
  then have "\<bar>v - (hi + lo) / 2\<bar> / d \<le> B / 2" using assms(4) by (simp add: field_simps)
  then have "\<bar>(v - (hi + lo) / 2) / d\<bar> \<le> B / 2" using assms(4) by simp
  then have "- (B / 2) \<le> (v - (hi + lo) / 2) / d" "(v - (hi + lo) / 2) / d \<le> B / 2"
    unfolding abs_le_iff by linarith+
  then show ?thesis by linarith
qed

lemma fitted_point_in_bounds:
  assumes "b0 < b2" "b1 < b3" "lines \<noteq> []" "[] \<notin> set lines"
    and an: "analyse_lines h lines (b0, b1, b2, b3) = Inr (d, rot, xm, ym, bxm, bym)"
    and pos: "0 < drawing_x_range h lines \<or> 0 < drawing_y_range h lines"
    and p: "p \<in> set (concat lines)"
  shows "b0 \<le> fst (fitted_point d rot rot xm ym bxm bym (h p))
       \<and> fst (fitted_point d rot rot xm ym bxm bym (h p)) \<le> b2
       \<and> b1 \<le> snd (fitted_point d rot rot xm ym bxm bym (h p))
       \<and> snd (fitted_point d rot rot xm ym bxm bym (h p)) \<le> b3"
proof -
  define X where "X = set (map (\<lambda>p. fst (h p)) (concat lines))"
  define Y where "Y = set (map (\<lambda>p. snd (h p)) (concat lines))"
  have fin: "finite X" "finite Y" unfolding X_def Y_def by simp_all
  have mem: "fst (h p) \<in> X" "snd (h p) \<in> Y" unfolding X_def Y_def using p by auto
  have xb: "Min X \<le> fst (h p)" "fst (h p) \<le> Max X"
    using fin(1) mem(1) by simp_all
  have yb: "Min Y \<le> snd (h p)" "snd (h p) \<le> Max Y"
    using fin(2) mem(2) by simp_all
  have xr: "0 \<le> Max X - Min X" and yr: "0 \<le> Max Y - Min Y" using xb yb by linarith+
  have bx: "0 < b2 - b0" and "by": "0 < b3 - b1" using assms(1,2) by simp_all
  have pos': "0 < Max X - Min X \<or> 0 < Max Y - Min Y"
    using pos unfolding drawing_x_range_def drawing_y_range_def X_def Y_def .
  have o: "(case orientation (Max X - Min X) (Max Y - Min Y) ((Max X + Min X) / 2)
                 ((Max Y + Min Y) / 2) (b2 - b0) (b3 - b1) of
              Inl e \<Rightarrow> Inl e
            | Inr (divider, rotated, x_mid, y_mid) \<Rightarrow>
                Inr (divider, rotated, x_mid, y_mid, (b0 + b2) / 2, (b1 + b3) / 2))
            = Inr (d, rot, xm, ym, bxm, bym)"
    using an analyse_lines_value[OF assms(3,4), of h b0 b1 b2 b3]
    unfolding drawing_x_range_def drawing_y_range_def X_def Y_def by simp
  have mids: "bxm = (b0 + b2) / 2" "bym = (b1 + b3) / 2"
    using o by (auto split: sum.splits)
  show ?thesis
  proof (cases rot)
    case False
    have dv: "d = max ((Max X - Min X) / (b2 - b0)) ((Max Y - Min Y) / (b3 - b1))"
      and m: "xm = (Max X + Min X) / 2" "ym = (Max Y + Min Y) / 2"
      using o False bx "by" by (auto simp: orientation_def py_div_def split: if_splits)
    have dpos: "0 < d"
      using pos' xr yr bx "by" unfolding dv by (auto simp: less_max_iff_disj)
    have dx: "(Max X - Min X) / (b2 - b0) \<le> d" and dy: "(Max Y - Min Y) / (b3 - b1) \<le> d"
      unfolding dv by simp_all
    have ex: "(b0 + b2) / 2 - (b2 - b0) / 2 \<le> (fst (h p) - (Max X + Min X) / 2) / d + (b0 + b2) / 2
       \<and> (fst (h p) - (Max X + Min X) / 2) / d + (b0 + b2) / 2 \<le> (b0 + b2) / 2 + (b2 - b0) / 2"
      by (rule scaled_within[OF xb bx dpos dx])
    have ey: "(b1 + b3) / 2 - (b3 - b1) / 2 \<le> (snd (h p) - (Max Y + Min Y) / 2) / d + (b1 + b3) / 2
       \<and> (snd (h p) - (Max Y + Min Y) / 2) / d + (b1 + b3) / 2 \<le> (b1 + b3) / 2 + (b3 - b1) / 2"
      by (rule scaled_within[OF yb "by" dpos dy])
    show ?thesis
      using ex ey False unfolding fitted_point_def Let_def mids m by (simp add: field_simps)
  next
    case True
    have dv: "d = max ((Max X - Min X) / (b3 - b1)) ((Max Y - Min Y) / (b2 - b0))"
      and m: "xm = (Max Y + Min Y) / 2" "ym = (Max X + Min X) / 2"
      using o True bx "by" by (auto simp: orientation_def py_div_def split: if_splits)
    have dpos: "0 < d"
      using pos' xr yr bx "by" unfolding dv by (auto simp: less_max_iff_disj)
    have dx: "(Max X - Min X) / (b3 - b1) \<le> d" and dy: "(Max Y - Min Y) / (b2 - b0) \<le> d"
      unfolding dv by simp_all
    have ex: "(b0 + b2) / 2 - (b2 - b0) / 2 \<le> (snd (h p) - (Max Y + Min Y) / 2) / d + (b0 + b2) / 2
       \<and> (snd (h p) - (Max Y + Min Y) / 2) / d + (b0 + b2) / 2 \<le> (b0 + b2) / 2 + (b2 - b0) / 2"
      by (rule scaled_within[OF yb bx dpos dy])
    have ey: "(b1 + b3) / 2 - (b3 - b1) / 2 \<le> (fst (h p) - (Max X + Min X) / 2) / d + (b1 + b3) / 2
       \<and> (fst (h p) - (Max X + Min X) / 2) / d + (b1 + b3) / 2 \<le> (b1 + b3) / 2 + (b3 - b1) / 2"
      by (rule scaled_within[OF xb "by" dpos dx])
    show ?thesis
      using ex ey True unfolding fitted_point_def Let_def mids m by (simp add: field_simps)
  qed
qed

lemma analysed_divider_nonzero:
  assumes "b0 < b2" "b1 < b3" "lines \<noteq> []" "[] \<notin> set lines"
    and an: "analyse_lines h lines (b0, b1, b2, b3) = Inr (d, rot, xm, ym, bxm, bym)"
    and pos: "0 < drawing_x_range h lines \<or> 0 < drawing_y_range h lines"
  shows "d \<noteq> 0"
proof -
  have ne: "concat lines \<noteq> []" using assms(3,4) by (cases lines) auto
  have xr: "0 \<le> drawing_x_range h lines" unfolding drawing_x_range_def by (rule range_nonneg[OF ne])
  have yr: "0 \<le> drawing_y_range h lines" unfolding drawing_y_range_def by (rule range_nonneg[OF ne])
  have bx: "0 < b2 - b0" and "by": "0 < b3 - b1" using assms(1,2) by simp_all
  show ?thesis
    using an pos orientation_divider[OF xr yr bx "by", of
        "(Max (set (map (\<lambda>p. fst (h p)) (concat lines)))
               + Min (set (map (\<lambda>p. fst (h p)) (concat lines)))) / 2"
        "(Max (set (map (\<lambda>p. snd (h p)) (concat lines)))
               + Min (set (map (\<lambda>p. snd (h p)) (concat lines)))) / 2"]
    unfolding analyse_lines_value[OF assms(3,4)]
    by (auto split: sum.splits)
qed

lemma fit_stage_contained_when_not_negated:
  assumes "b0 < b2" "b1 < b3" "lines \<noteq> []" "[] \<notin> set lines" "distinct (concat lines)"
    and an: "analyse_lines h lines (b0, b1, b2, b3) = Inr (d, rot, xm, ym, bxm, bym)"
    and pos: "0 < drawing_x_range h lines \<or> 0 < drawing_y_range h lines"
    and p: "p \<in> set (concat lines)"
  shows "fst (fit_stage lines rot (b0, b1, b2, b3) h) = Inr ()
       \<and> b0 \<le> fst (snd (fit_stage lines rot (b0, b1, b2, b3) h) p)
       \<and> fst (snd (fit_stage lines rot (b0, b1, b2, b3) h) p) \<le> b2
       \<and> b1 \<le> snd (snd (fit_stage lines rot (b0, b1, b2, b3) h) p)
       \<and> snd (snd (fit_stage lines rot (b0, b1, b2, b3) h) p) \<le> b3"
proof -
  have d: "d \<noteq> 0" by (rule analysed_divider_nonzero[OF assms(1,2,3,4) an pos])
  have st: "fit_stage lines rot (b0, b1, b2, b3) h =
          (Inr (), (\<lambda>p. if p \<in> set (concat lines)
                then fitted_point d rot rot xm ym bxm bym (h p) else h p))"
    by (simp add: fit_stage_def an fit_lines_ok[OF d assms(5)])
  show ?thesis
    unfolding st using fitted_point_in_bounds[OF assms(1,2,3,4) an pos p] p by simp
qed

text \<open>
  \<^bold>\<open>C1\<close> (the code departs from the claim). The drawing \<open>(0,0), (10,10)\<close>, the bounds
  \<open>(0,0,10,10)\<close> and \<^verbatim>\<open>flip=True\<close>: the divider is 1 and nothing is rotated, so
  \<^verbatim>\<open>flip ^ rotate\<close> holds and \<open>x\<close> is negated after the box mid-point has been added.
  The second point ends at \<open>(-10, 10)\<close>, left of \<open>minX = 0\<close>. With \<^verbatim>\<open>flip=False\<close> the same
  drawing stays inside, by \<open>fit_stage_contained_when_not_negated\<close>.
\<close>

theorem flipped_point_leaves_bounds:
  "fit_stage [[0, Suc 0]] True (0, 0, 10, 10) (store_of [(0, 0), (10, 10)])
     = (Inr (), (store_of [(0, 0), (10, 10)])(0 := (0, 0), Suc 0 := (- 10, 10)))
   \<and> \<not> (0 \<le> fst (snd (fit_stage [[0, Suc 0]] True (0, 0, 10, 10)
                           (store_of [(0, 0), (10, 10)])) (Suc 0)))"
proof -
  have a: "analyse_lines (store_of [(0, 0), (10, 10)]) [[0, Suc 0]] (0, 0, 10, 10)
       = Inr (1, False, 5, 5, 5, 5)"
    by (simp add: analyse_two_points orientation_def py_div_def)
  have "fit_stage [[0, Suc 0]] True (0, 0, 10, 10) (store_of [(0, 0), (10, 10)])
     = (Inr (), (store_of [(0, 0), (10, 10)])(0 := (0, 0), Suc 0 := (- 10, 10)))"
    by (simp add: fit_stage_def a fit_point_ok fitted_point_def fun_upd_twist)
  then show ?thesis by simp
qed

subsection \<open>Moving the pen\<close>

text \<open>The constructor yields the virtual plotter used below, and cannot finish in real mode.\<close>

lemma BrachioGraph_init_virtual:
  "BrachioGraph_init inner_arm outer_arm True None None None 1500 1500 (- 10) 10 1500 1100
     = Inr (virtual_plotter inner_arm outer_arm)"
  by (simp add: BrachioGraph_init_def Pen_init_def pen_up_def pen_down_def virtual_plotter_def
      naive_angles_to_pulse_widths_1_def naive_angles_to_pulse_widths_2_def Let_def)

lemma BrachioGraph_init_real:
  "BrachioGraph_init inner_arm outer_arm False bnds fit_1 fit_2 z1 z2 d1 d2 pw_up pw_down
     = Inl AttributeError"
  by (simp add: BrachioGraph_init_def Pen_init_def pen_up_def Let_def)

lemma pen_up_frame:
  "pen_up s = (r, s') \<Longrightarrow>
     INNER_ARM s' = INNER_ARM s \<and> OUTER_ARM s' = OUTER_ARM s \<and> virtual_mode s' = virtual_mode s
     \<and> current_x s' = current_x s \<and> current_y s' = current_y s
     \<and> angle_1 s' = angle_1 s \<and> angle_2 s' = angle_2 s \<and> commands s' = commands s"
  by (auto simp: pen_up_def split: option.splits if_splits)

lemma pen_down_frame:
  "pen_down s = (r, s') \<Longrightarrow>
     INNER_ARM s' = INNER_ARM s \<and> OUTER_ARM s' = OUTER_ARM s \<and> virtual_mode s' = virtual_mode s
     \<and> current_x s' = current_x s \<and> current_y s' = current_y s
     \<and> angle_1 s' = angle_1 s \<and> angle_2 s' = angle_2 s \<and> commands s' = commands s"
  by (auto simp: pen_down_def split: option.splits if_splits)

text \<open>Arms of length 8 and 2: the target \<open>(8, 2)\<close> is reachable, the point \<open>(0, 2)\<close> is not.\<close>

lemma sqrt_68_bounds: "6 \<le> sqrt 68" "sqrt 68 \<le> 10" "0 < sqrt 68" "8 \<le> sqrt 68"
proof -
  show "6 \<le> sqrt 68" by (rule real_le_rsqrt) simp
  show "8 \<le> sqrt 68" by (rule real_le_rsqrt) simp
  show "sqrt 68 \<le> 10" by (rule real_le_lsqrt) simp_all
  show "0 < sqrt 68" by simp
qed

lemma target_8_2_reachable:
  "xy_to_angles 8 2 8 2 = Inr (degrees (arcsin (8 / sqrt 68) - arccos (8 / sqrt 68)), 90)"
proof -
  have "xy_to_angles 8 2 8 2 =
     Inr (degrees (arcsin (8 / sqrt (8\<^sup>2 + 2\<^sup>2))
                   - arccos (((sqrt (8\<^sup>2 + 2\<^sup>2))\<^sup>2 + 8\<^sup>2 - 2\<^sup>2) / (2 * sqrt (8\<^sup>2 + 2\<^sup>2) * 8))),
          degrees (pi - arccos ((8\<^sup>2 + 2\<^sup>2 - (sqrt (8\<^sup>2 + 2\<^sup>2))\<^sup>2) / (2 * 8 * 2))))"
    using sqrt_68_bounds by (intro xy_to_angles_value) simp_all
  then show ?thesis by (simp add: degrees_def)
qed

lemma shoulder_8_2_above_parked:
  "- 90 < degrees (arcsin (8 / sqrt 68) - arccos (8 / sqrt 68))"
proof -
  have q: "0 < 8 / sqrt 68" "8 / sqrt 68 \<le> 1"
    using sqrt_68_bounds by (simp_all add: field_simps)
  have "arcsin 0 < arcsin (8 / sqrt 68)"
    using q by (intro arcsin_less_arcsin) simp_all
  then have a: "0 < arcsin (8 / sqrt 68)" by simp
  have b: "arccos (8 / sqrt 68) \<le> pi / 2"
    using q by (intro arccos_le_pi2) simp_all
  have "- (pi / 2) < arcsin (8 / sqrt 68) - arccos (8 / sqrt 68)" using a b by linarith
  then have "- (pi / 2) * 180 / pi < (arcsin (8 / sqrt 68) - arccos (8 / sqrt 68)) * 180 / pi"
    by (simp add: field_simps)
  then show ?thesis by (simp add: degrees_def)
qed

lemma midpoint_0_2_unreachable: "xy_to_angles 8 2 0 2 = Inl ValueError"
  by (simp add: xy_to_angles_def py_sqrt_def py_div_def py_asin_def py_acos_def)


text \<open>
  \<^bold>\<open>C4\<close> (as stated, refuted). A virtual plotter with arms 8 and 2 is parked at \<open>(-8, 2)\<close>
  and told \<^verbatim>\<open>xy(8, 2, interpolate=1/8)\<close>. The target is reachable; the move has two steps
  and the first lands on \<open>(0, 2)\<close>, inside the inner circle of radius 6, where
  \<^verbatim>\<open>xy_to_angles\<close> raises. \<^verbatim>\<open>current_x\<close> and \<^verbatim>\<open>current_y\<close> have been advanced to that point
  before the conversion, and nothing restores them.
\<close>

theorem failed_move_keeps_failing_position_counterexample:
  "\<not> isl (xy_to_angles 8 2 8 2)
   \<and> xy_to_angles 8 2 0 2 = Inl ValueError
   \<and> xy 8 2 (1 / 10) (1 / 8) False (virtual_plotter 8 2)
       = (Inl ValueError, (virtual_plotter 8 2)\<lparr>current_x := 0, current_y := 2\<rparr>)
   \<and> current_x (virtual_plotter 8 2) = - 8"
proof -
  have ne: "(degrees (arcsin (8 / sqrt 68) - arccos (8 / sqrt 68)) + 90) * - 10 + 1500 \<noteq> 1500"
    using shoulder_8_2_above_parked by simp
  have "xy 8 2 (1 / 10) (1 / 8) False (virtual_plotter 8 2)
       = (Inl ValueError, (virtual_plotter 8 2)\<lparr>current_x := 0, current_y := 2\<rparr>)"
    using ne
    by (simp add: xy_def pen_up_def virtual_plotter_def target_8_2_reachable
      angles_to_pulse_widths_def get_pulse_widths_def
      naive_angles_to_pulse_widths_1_def naive_angles_to_pulse_widths_2_def
      py_sqrt_def py_int_def Let_def numeral_2_eq_2 midpoint_0_2_unreachable)
  then show ?thesis
    by (simp add: target_8_2_reachable midpoint_0_2_unreachable virtual_plotter_def)
qed

text \<open>
  \<^bold>\<open>C4\<close> (amended). If the conversion of the target itself fails, \<^verbatim>\<open>xy\<close> raises before any
  step: \<^verbatim>\<open>current_x\<close>, \<^verbatim>\<open>current_y\<close>, \<^verbatim>\<open>angle_1\<close>, \<^verbatim>\<open>angle_2\<close> keep their values and no pair
  is sent to the servos.
\<close>

theorem xy_unreachable_target_keeps_state:
  assumes "xy_to_angles (INNER_ARM s) (OUTER_ARM s) x y = Inl e"
  shows "isl (fst (xy x y wait interpolate draw s))
       \<and> current_x (snd (xy x y wait interpolate draw s)) = current_x s
       \<and> current_y (snd (xy x y wait interpolate draw s)) = current_y s
       \<and> angle_1 (snd (xy x y wait interpolate draw s)) = angle_1 s
       \<and> angle_2 (snd (xy x y wait interpolate draw s)) = angle_2 s
       \<and> commands (snd (xy x y wait interpolate draw s)) = commands s"
proof -
  obtain r s1 where p: "(if draw then pen_down s else pen_up s) = (r, s1)"
    by (cases "if draw then pen_down s else pen_up s") simp
  then have fr: "INNER_ARM s1 = INNER_ARM s \<and> OUTER_ARM s1 = OUTER_ARM s
     \<and> current_x s1 = current_x s \<and> current_y s1 = current_y s
     \<and> angle_1 s1 = angle_1 s \<and> angle_2 s1 = angle_2 s \<and> commands s1 = commands s"
    using pen_up_frame[of s r s1] pen_down_frame[of s r s1] by (simp split: if_splits)
  show ?thesis
  proof (cases r)
    case (Inl e')
    then have "xy x y wait interpolate draw s = (Inl e', s1)"
      unfolding xy_def p by simp
    then show ?thesis using fr by simp
  next
    case (Inr u)
    then have "xy x y wait interpolate draw s = (Inl e, s1)"
      unfolding xy_def p using fr assms by simp
    then show ?thesis using fr by simp
  qed
qed

theorem xy_unreachable_target_keeps_state_witness:
  "xy_to_angles (INNER_ARM (virtual_plotter 8 8)) (OUTER_ARM (virtual_plotter 8 8)) 0 20 = Inl ValueError
   \<and> isl (fst (xy 0 20 (1 / 10) 10 False (virtual_plotter 8 8)))
   \<and> current_x (snd (xy 0 20 (1 / 10) 10 False (virtual_plotter 8 8))) = - 8
   \<and> current_y (snd (xy 0 20 (1 / 10) 10 False (virtual_plotter 8 8))) = 8
   \<and> angle_1 (snd (xy 0 20 (1 / 10) 10 False (virtual_plotter 8 8))) = None
   \<and> commands (snd (xy 0 20 (1 / 10) 10 False (virtual_plotter 8 8))) = []"
proof -
  have u: "xy_to_angles (INNER_ARM (virtual_plotter 8 8)) (OUTER_ARM (virtual_plotter 8 8)) 0 20
             = Inl ValueError"
    by (simp add: virtual_plotter_def xy_to_angles_def py_sqrt_def py_div_def py_asin_def
        py_acos_def)
  show ?thesis
    using xy_unreachable_target_keeps_state[OF u, of "1 / 10" 10 False] u
    by (simp add: virtual_plotter_def)
qed










text \<open>
  The short-circuit of \<^verbatim>\<open>xy\<close>: when the target pulse-widths equal the reported ones, the
  position is set to the target and no pair is sent.
\<close>

lemma xy_short_circuit:
  assumes "(if draw then pen_down s else pen_up s) = (Inr (), s1)"
    and "xy_to_angles (INNER_ARM s1) (OUTER_ARM s1) x y = Inr (a1, a2)"
    and "angles_to_pulse_widths a1 a2 s1 = get_pulse_widths s1"
  shows "xy x y wait interpolate draw s = (Inr (), s1\<lparr>current_x := x, current_y := y\<rparr>)"
  unfolding xy_def using assms by simp

lemma xy_to_angles_8_8_0_8: "xy_to_angles 8 8 0 8 = Inr (- 60, 120)"
  by (simp add: xy_to_angles_def py_sqrt_def py_div_def py_asin_def py_acos_def degrees_def)

lemma first_move:
  "xy 0 8 (1 / 10) (1 / 10) False (virtual_plotter 8 8) = (Inr (), plotter_after_first_move)"
  by (simp add: xy_def pen_up_def virtual_plotter_def xy_to_angles_8_8_0_8
      angles_to_pulse_widths_def get_pulse_widths_def
      naive_angles_to_pulse_widths_1_def naive_angles_to_pulse_widths_2_def
      py_sqrt_def py_int_def Let_def set_angles_def set_pulse_widths_def plotter_after_first_move_def)

lemma second_move:
  "xy 0 8 (1 / 10) (1 / 10) False plotter_after_first_move
     = (Inr (), plotter_after_first_move\<lparr>commands := [(1200, 1800), (1200, 1800)]\<rparr>)"
  by (simp add: xy_def pen_up_def virtual_plotter_def xy_to_angles_8_8_0_8
      angles_to_pulse_widths_def get_pulse_widths_def
      naive_angles_to_pulse_widths_1_def naive_angles_to_pulse_widths_2_def
      py_sqrt_def py_int_def Let_def set_angles_def set_pulse_widths_def plotter_after_first_move_def)


text \<open>
  \<^bold>\<open>C5\<close> (the code departs from the claim). The virtual plotter with arms 8 and 8, fresh
  from its constructor, is told \<^verbatim>\<open>xy(0, 8, interpolate=0.1)\<close> twice. The first call sends
  \<open>(1200, 1800)\<close>; \<^verbatim>\<open>set_pulse_widths\<close> then stores \<^verbatim>\<open>angles_to_pw_1(1200) = -11400\<close> and
  \<^verbatim>\<open>angles_to_pw_2(1800) = 18600\<close> as the reported pulse-widths. The second call compares
  \<open>(1200, 1800)\<close> with these, finds them different, and sends \<open>(1200, 1800)\<close> again.
\<close>

theorem repeated_move_issues_command:
  "xy 0 8 (1 / 10) (1 / 10) False (virtual_plotter 8 8) = (Inr (), plotter_after_first_move)
   \<and> get_pulse_widths plotter_after_first_move = (- 11400, 18600)
   \<and> xy 0 8 (1 / 10) (1 / 10) False plotter_after_first_move
       = (Inr (), plotter_after_first_move\<lparr>commands := [(1200, 1800), (1200, 1800)]\<rparr>)"
proof -
  have reported: "get_pulse_widths plotter_after_first_move = (- 11400, 18600)"
    by (simp add: get_pulse_widths_def plotter_after_first_move_def virtual_plotter_def)
  show ?thesis using first_move second_move reported by simp
qed

end
